theory Spec2Isabelle
  imports Complex_Main "HOL-Library.Multiset"
begin

section \<open>JavaScript values used by the dashboard\<close>

subsection \<open>Numbers\<close>

text \<open>
  A JavaScript number is modelled by its exact mathematical value, or by one of the three
  special values. Rounding to 64-bit binary floating point and the sign of zero are not
  modelled: \<open>Fin 0\<close> stands for both zeros.
\<close>

datatype jsnum = Fin rat | PosInf | NegInf | NaN

fun js_neg :: "jsnum \<Rightarrow> jsnum" where
  "js_neg (Fin a) = Fin (- a)"
| "js_neg PosInf = NegInf"
| "js_neg NegInf = PosInf"
| "js_neg NaN = NaN"

text \<open>The operator \<open>+\<close> on two numbers.\<close>

fun js_add :: "jsnum \<Rightarrow> jsnum \<Rightarrow> jsnum" where
  "js_add (Fin a) (Fin b) = Fin (a + b)"
| "js_add NaN y = NaN"
| "js_add x NaN = NaN"
| "js_add PosInf NegInf = NaN"
| "js_add NegInf PosInf = NaN"
| "js_add PosInf y = PosInf"
| "js_add NegInf y = NegInf"
| "js_add x PosInf = PosInf"
| "js_add x NegInf = NegInf"

definition js_sub :: "jsnum \<Rightarrow> jsnum \<Rightarrow> jsnum" where
  "js_sub x y = js_add x (js_neg y)"


text \<open>The relational operators: every comparison with \<open>NaN\<close> is false.\<close>

fun js_lt :: "jsnum \<Rightarrow> jsnum \<Rightarrow> bool" where
  "js_lt NaN y = False"
| "js_lt x NaN = False"
| "js_lt (Fin a) (Fin b) = (a < b)"
| "js_lt PosInf y = False"
| "js_lt x NegInf = False"
| "js_lt x PosInf = True"
| "js_lt NegInf y = True"

definition js_gt :: "jsnum \<Rightarrow> jsnum \<Rightarrow> bool" where
  "js_gt x y = js_lt y x"

definition js_le :: "jsnum \<Rightarrow> jsnum \<Rightarrow> bool" where
  "js_le x y = (x \<noteq> NaN \<and> y \<noteq> NaN \<and> \<not> js_lt y x)"

definition js_ge :: "jsnum \<Rightarrow> jsnum \<Rightarrow> bool" where
  "js_ge x y = js_le y x"

text \<open>Strict inequality \<open>!==\<close> on numbers: \<open>NaN\<close> differs from everything, itself included.\<close>

definition js_strict_neq :: "jsnum \<Rightarrow> jsnum \<Rightarrow> bool" where
  "js_strict_neq x y = (x = NaN \<or> y = NaN \<or> x \<noteq> y)"


subsection \<open>Strings\<close>

text \<open>
  A string is a list of code units; the model has the code units below 256. The white space
  of \<open>\s\<close> and of the number parsers is then tab, line feed, vertical tab, form feed,
  carriage return, space and no-break space.
\<close>

definition isWhiteSpace :: "char \<Rightarrow> bool" where
  "isWhiteSpace c = (of_char c \<in> {9, 10, 11, 12, 13, 32, 160 :: nat})"

definition isDigit :: "char \<Rightarrow> bool" where
  "isDigit c = (48 \<le> (of_char c :: nat) \<and> (of_char c :: nat) \<le> 57)"

definition digitVal :: "char \<Rightarrow> nat" where
  "digitVal c = of_char c - 48"

definition digitsVal :: "string \<Rightarrow> nat" where
  "digitsVal ds = foldl (\<lambda>a c. 10 * a + digitVal c) 0 ds"

text \<open>\<open>String.prototype.startsWith\<close> and \<open>String.prototype.includes\<close>: \<open>str_includes s n\<close>
  is \<open>s.includes(n)\<close>.\<close>

fun startsWith :: "string \<Rightarrow> string \<Rightarrow> bool" where
  "startsWith s [] = True"
| "startsWith [] (c # n) = False"
| "startsWith (d # s) (c # n) = (d = c \<and> startsWith s n)"

fun str_includes :: "string \<Rightarrow> string \<Rightarrow> bool" where
  "str_includes [] n = (n = [])"
| "str_includes (c # s) n = (startsWith (c # s) n \<or> str_includes s n)"

text \<open>\<open>s.split(c)\<close> for a one-character separator: never empty, \<open>''''.split(c)\<close> is \<open>['''']\<close>.\<close>

fun split :: "char \<Rightarrow> string \<Rightarrow> string list" where
  "split c [] = [[]]"
| "split c (x # xs) =
     (if x = c then [] # split c xs
      else (x # hd (split c xs)) # tl (split c xs))"

subsection \<open>\<open>parseFloat\<close> and \<open>parseInt\<close>\<close>

text \<open>
  \<open>parseFloat\<close> skips leading white space and reads the longest prefix that is a decimal
  literal: an optional sign, then \<open>Infinity\<close>, or digits with an optional fraction, or a
  fraction alone, then an optional exponent that counts only when it has digits. Without
  such a prefix the result is \<open>NaN\<close>.
\<close>

definition unsign :: "string \<Rightarrow> string" where
  "unsign t = (case t of [] \<Rightarrow> [] | c # r \<Rightarrow> if c = CHR ''-'' \<or> c = CHR ''+'' then r else t)"

definition isNegative :: "string \<Rightarrow> bool" where
  "isNegative t = (case t of [] \<Rightarrow> False | c # r \<Rightarrow> c = CHR ''-'')"

definition exponentPart :: "string \<Rightarrow> int" where
  "exponentPart r =
     (case r of [] \<Rightarrow> 0
      | c # r' \<Rightarrow>
          if c = CHR ''e'' \<or> c = CHR ''E'' then
            (let ds = takeWhile isDigit (unsign r')
             in if ds = [] then 0
                else if isNegative r' then - int (digitsVal ds) else int (digitsVal ds))
          else 0)"

definition scale10 :: "rat \<Rightarrow> int \<Rightarrow> rat" where
  "scale10 m e = (if 0 \<le> e then m * 10 ^ nat e else m / 10 ^ nat (- e))"

definition parseFloat :: "string \<Rightarrow> jsnum" where
  "parseFloat s =
     (let t = dropWhile isWhiteSpace s;
          u = unsign t
      in if startsWith u ''Infinity'' then (if isNegative t then NegInf else PosInf)
         else
           (let ip = takeWhile isDigit u;
                r1 = dropWhile isDigit u;
                hasDot = (r1 \<noteq> [] \<and> hd r1 = CHR ''.'');
                fp = (if hasDot then takeWhile isDigit (tl r1) else []);
                r2 = (if hasDot then dropWhile isDigit (tl r1) else r1)
            in if ip = [] \<and> fp = [] then NaN
               else
                 (let m = scale10 (of_nat (digitsVal (ip @ fp)))
                            (exponentPart r2 - int (length fp))
                  in Fin (if isNegative t then - m else m))))"

text \<open>
  \<open>parseInt\<close> without a radix: leading white space, an optional sign, the prefix \<open>0x\<close> or
  \<open>0X\<close> for base sixteen, then the longest run of digits. \<open>None\<close> is \<open>NaN\<close>.
\<close>

definition isHexDigit :: "char \<Rightarrow> bool" where
  "isHexDigit c =
     (isDigit c \<or> (65 \<le> (of_char c :: nat) \<and> (of_char c :: nat) \<le> 70)
      \<or> (97 \<le> (of_char c :: nat) \<and> (of_char c :: nat) \<le> 102))"

definition hexVal :: "char \<Rightarrow> nat" where
  "hexVal c =
     (if isDigit c then of_char c - 48
      else if (of_char c :: nat) \<le> 70 then of_char c - 55 else of_char c - 87)"

definition parseInt :: "string \<Rightarrow> int option" where
  "parseInt s =
     (let t = dropWhile isWhiteSpace s;
          u = unsign t;
          hex = (startsWith u ''0x'' \<or> startsWith u ''0X'');
          z = (if hex then takeWhile isHexDigit (drop 2 u) else takeWhile isDigit u);
          v = (if hex then foldl (\<lambda>a c. 16 * a + hexVal c) 0 z else digitsVal z)
      in if z = [] then None
         else Some (if isNegative t then - int v else int v))"

subsection \<open>Dates\<close>

text \<open>
  A \<open>Date\<close> object holds a time value, the milliseconds since the epoch in UTC, or is
  invalid (its \<open>getTime\<close> is \<open>NaN\<close>). Local time is UTC plus \<open>tz\<close> milliseconds, where
  \<open>tz\<close> is the offset of the browser's time zone, positive east of Greenwich. The offset
  is taken as constant: daylight-saving changes are not modelled.
\<close>

datatype Date = TimeValue int | InvalidDate

fun getTime :: "Date \<Rightarrow> jsnum" where
  "getTime (TimeValue t) = Fin (of_int t)"
| "getTime InvalidDate = NaN"

definition msPerDay :: int where
  "msPerDay = 86400000"

definition TimeClip :: "int \<Rightarrow> Date" where
  "TimeClip t = (if \<bar>t\<bar> > 8640000000000000 then InvalidDate else TimeValue t)"

text \<open>The day number of 1 January of a year, and the calendar of the language standard.\<close>

definition DayFromYear :: "int \<Rightarrow> int" where
  "DayFromYear y =
     365 * (y - 1970) + (y - 1969) div 4 - (y - 1901) div 100 + (y - 1601) div 400"

definition InLeapYear :: "int \<Rightarrow> bool" where
  "InLeapYear y = (y mod 4 = 0 \<and> (y mod 100 \<noteq> 0 \<or> y mod 400 = 0))"

definition daysBeforeMonth :: "int \<Rightarrow> nat \<Rightarrow> int" where
  "daysBeforeMonth y mn =
     [0, 31, 59, 90, 120, 151, 181, 212, 243, 273, 304, 334] ! mn
       + (if 2 \<le> mn \<and> InLeapYear y then 1 else 0)"

definition daysInMonth :: "int \<Rightarrow> nat \<Rightarrow> int" where
  "daysInMonth y mn =
     (if mn = 1 then (if InLeapYear y then 29 else 28)
      else [31, 28, 31, 30, 31, 30, 31, 31, 30, 31, 30, 31] ! mn)"

text \<open>\<open>MakeDay\<close>: the month is an index from 0 and may lie outside 0..11, the day of the
  month may lie outside the month; both carry over.\<close>

definition MakeDay :: "int \<Rightarrow> int \<Rightarrow> int \<Rightarrow> int" where
  "MakeDay year month dt =
     (let ym = year + month div 12;
          mn = nat (month mod 12)
      in DayFromYear ym + daysBeforeMonth ym mn + dt - 1)"

text \<open>
  \<open>new Date(year, month, day)\<close> on numbers that are integers or \<open>NaN\<close> (\<open>None\<close>): local
  midnight of that day; a year from 0 to 99 means 1900 to 1999.
\<close>

definition newDateLocal :: "int \<Rightarrow> int option \<Rightarrow> int option \<Rightarrow> int option \<Rightarrow> Date" where
  "newDateLocal tz year month day =
     (case (year, month, day) of
        (Some y, Some m, Some d) \<Rightarrow>
          (let yr = (if 0 \<le> y \<and> y \<le> 99 then 1900 + y else y)
           in TimeClip (MakeDay yr m d * msPerDay - tz))
      | _ \<Rightarrow> InvalidDate)"

text \<open>
  \<open>new Date(s)\<close> for the value of a date input control, which is empty or of the form
  \<open>YYYY-MM-DD\<close>: a date-only form is read as UTC midnight. Other strings are left to the
  browser by the language standard; the model makes them invalid dates.
\<close>

definition newDateISO :: "string \<Rightarrow> Date" where
  "newDateISO s =
     (if length s = 10 \<and> s ! 4 = CHR ''-'' \<and> s ! 7 = CHR ''-''
         \<and> list_all isDigit (take 4 s) \<and> list_all isDigit (take 2 (drop 5 s))
         \<and> list_all isDigit (drop 8 s)
      then
        (let y = int (digitsVal (take 4 s));
             m = digitsVal (take 2 (drop 5 s));
             d = int (digitsVal (drop 8 s))
         in if 1 \<le> m \<and> m \<le> 12 \<and> 1 \<le> d \<and> d \<le> daysInMonth y (m - 1)
            then TimeClip (MakeDay y (int m - 1) d * msPerDay)
            else InvalidDate)
      else InvalidDate)"

text \<open>\<open>d.setHours(h, m, s, ms)\<close>: the same local day, at the given local time.\<close>

fun setHours :: "int \<Rightarrow> Date \<Rightarrow> int \<Rightarrow> int \<Rightarrow> int \<Rightarrow> int \<Rightarrow> Date" where
  "setHours tz InvalidDate h mi s ms = InvalidDate"
| "setHours tz (TimeValue t) h mi s ms =
     TimeClip (((t + tz) div msPerDay) * msPerDay
                 + (((h * 60 + mi) * 60 + s) * 1000 + ms) - tz)"

text \<open>\<open>a >= b\<close> and \<open>a <= b\<close> on \<open>Date\<close> objects compare the time values.\<close>

definition date_ge :: "Date \<Rightarrow> Date \<Rightarrow> bool" where
  "date_ge a b = js_ge (getTime a) (getTime b)"

definition date_le :: "Date \<Rightarrow> Date \<Rightarrow> bool" where
  "date_le a b = js_le (getTime a) (getTime b)"

subsection \<open>Arrays\<close>

text \<open>
  \<open>Array.prototype.sort(compareFn)\<close> is stable; a comparison result that is \<open>NaN\<close> counts
  as 0. With a consistent comparator every stable sort returns the same array. The model
  inserts the elements one by one from the right, each before the first element it is not
  greater than. (With an inconsistent comparator the language standard leaves the order
  to the engine.)
\<close>

fun insertSorted :: "('a \<Rightarrow> 'a \<Rightarrow> jsnum) \<Rightarrow> 'a \<Rightarrow> 'a list \<Rightarrow> 'a list" where
  "insertSorted compareFn x [] = [x]"
| "insertSorted compareFn x (y # ys) =
     (if js_gt (compareFn x y) (Fin 0) then y # insertSorted compareFn x ys
      else x # y # ys)"

definition array_sort :: "('a \<Rightarrow> 'a \<Rightarrow> jsnum) \<Rightarrow> 'a list \<Rightarrow> 'a list" where
  "array_sort compareFn xs = foldr (insertSorted compareFn) xs []"

text \<open>\<open>Array.from(new Set(xs))\<close>: the distinct elements in the order of first occurrence.\<close>

definition set_add :: "'a list \<Rightarrow> 'a \<Rightarrow> 'a list" where
  "set_add s x = (if x \<in> set s then s else s @ [x])"

definition new_Set :: "'a list \<Rightarrow> 'a list" where
  "new_Set xs = foldl set_add [] xs"

text \<open>\<open>Promise.all\<close> on settled promises: all the values in order, or a rejection.\<close>

fun promise_all :: "('e + 'a) list \<Rightarrow> 'e + 'a list" where
  "promise_all [] = Inr []"
| "promise_all (Inl e # ps) = Inl e"
| "promise_all (Inr v # ps) = (case promise_all ps of Inl e \<Rightarrow> Inl e | Inr vs \<Rightarrow> Inr (v # vs))"

section \<open>The dashboard component\<close>

subsection \<open>Data\<close>

text \<open>
  \<open>interface Transaction\<close> and \<open>interface RawTransaction\<close>: the raw transaction has the
  date as a string and no cumulative amount.
\<close>

record 'd TransactionFields =
  date :: 'd
  name :: string
  type :: string
  currency :: string
  amount :: jsnum
  status :: string

type_synonym RawTransaction = "string TransactionFields"

record Transaction = "Date TransactionFields" +
  cumulativeAmount :: jsnum

datatype ViewMode = transaction | timeline

text \<open>The state hooks of the component.\<close>

record Dashboard =
  rawTransactions :: "RawTransaction list"
  selectedMerchants :: "string list"
  viewMode :: ViewMode
  uploadedFiles :: "string list"
  startDate :: string
  endDate :: string
  isLoading :: bool

definition initialDashboard :: Dashboard where
  "initialDashboard =
     \<lparr>rawTransactions = [], selectedMerchants = [''all''], viewMode = transaction,
      uploadedFiles = [], startDate = [], endDate = [], isLoading = False\<rparr>"

subsection \<open>Record parser\<close>

text \<open>
  \<open>parseDate\<close>:
  \<^verbatim>\<open>const [day, month, year] = dateStr.split('/').map(num => parseInt(num))
  return new Date(year, month - 1, day)\<close>
  A missing part is \<open>undefined\<close>, which the constructor turns into \<open>NaN\<close>.
\<close>

definition part :: "int option list \<Rightarrow> nat \<Rightarrow> int option" where
  "part ps i = (if i < length ps then ps ! i else None)"

definition parseDate :: "int \<Rightarrow> string \<Rightarrow> Date" where
  "parseDate tz dateStr =
     (let ps = map parseInt (split (CHR ''/'') dateStr);
          day = part ps 0; month = part ps 1; year = part ps 2
      in newDateLocal tz year (map_option (\<lambda>m. m - 1) month) day)"

text \<open>
  \<open>parseAmount\<close>:
  \<^verbatim>\<open>if (!amountStr) return 0
  return parseFloat(amountStr.replace(/[,\s]/g, ''))\<close>
\<close>

definition stripSeparators :: "string \<Rightarrow> string" where
  "stripSeparators s = filter (\<lambda>c. \<not> (c = CHR '','' \<or> isWhiteSpace c)) s"

definition parseAmount :: "string \<Rightarrow> jsnum" where
  "parseAmount amountStr =
     (if amountStr = [] then Fin 0 else parseFloat (stripSeparators amountStr))"

text \<open>
  An uploaded file is given by its name and by what the CSV library does with it: it calls
  \<open>error\<close>, or \<open>complete\<close> with the rows. \<open>processCSVFile\<close> skips the header row and reads
  the positions 0, 3, 4, 5, 6 and 7 of every other row. A position beyond the end of a row
  reads as \<open>undefined\<close>, which the interface \<open>RawTransaction\<close> (all strings) does not
  have; the model keeps the empty string for it. The component does not tell the two apart
  on a row of at least one field: \<open>parseAmount\<close> gives 0 for both, \<open>merchants\<close> drops both,
  and the filter reads name and type only after the status, a later position, was found
  to be \<open>Completed\<close>.
\<close>

datatype PapaResult = PapaError string | PapaComplete "string list list"

record File =
  fileName :: string
  contents :: PapaResult

definition field :: "string list \<Rightarrow> nat \<Rightarrow> string" where
  "field row i = (if i < length row then row ! i else [])"

definition rowToRaw :: "string list \<Rightarrow> RawTransaction" where
  "rowToRaw row =
     \<lparr>date = field row 0, name = field row 3, type = field row 4, currency = field row 6,
      amount = parseAmount (field row 7), status = field row 5\<rparr>"

definition processCSVFile :: "File \<Rightarrow> string + RawTransaction list" where
  "processCSVFile file =
     (case contents file of
        PapaError e \<Rightarrow> Inl e
      | PapaComplete rows \<Rightarrow> Inr (map rowToRaw (drop 1 rows)))"

text \<open>
  \<open>handleFileUpload\<close>: nothing happens without files; otherwise the loading flag is set,
  all files are parsed, and either the three setters run or the error is caught (and
  written to the console); the loading flag is cleared at the end.
\<close>

definition handleFileUpload :: "Dashboard \<Rightarrow> File list \<Rightarrow> Dashboard" where
  "handleFileUpload s files =
     (if files = [] then s
      else
        (let s1 = s\<lparr>isLoading := True\<rparr>
         in case promise_all (map processCSVFile files) of
              Inr allTransactions \<Rightarrow>
                s1\<lparr>rawTransactions := concat allTransactions,
                   uploadedFiles := map fileName files,
                   selectedMerchants := [''all''],
                   isLoading := False\<rparr>
            | Inl e \<Rightarrow> s1\<lparr>isLoading := False\<rparr>))"

subsection \<open>Merchants and filters\<close>

text \<open>
  \<open>merchants\<close>:
  \<^verbatim>\<open>const names = new Set(rawTransactions.map(t => t.name))
  return Array.from(names).filter(name => name && name !== '')\<close>
\<close>

definition merchants :: "RawTransaction list \<Rightarrow> string list" where
  "merchants raws = filter (\<lambda>n. n \<noteq> []) (new_Set (map name raws))"

text \<open>
  The copy of the component with a single-select dropdown (\<open>components/Dashboard.tsx\<close>)
  builds the option list of the dropdown instead, with the sentinel in front:
  \<^verbatim>\<open>return ['all', ...Array.from(names)].filter(name => name && name !== '')\<close>
\<close>

definition merchantOptions :: "RawTransaction list \<Rightarrow> string list" where
  "merchantOptions raws = filter (\<lambda>n. n \<noteq> []) (''all'' # new_Set (map name raws))"

text \<open>The filter of \<open>transactions\<close>, in its three parts.\<close>

definition isCompleted :: "('d, 'z) TransactionFields_scheme \<Rightarrow> bool" where
  "isCompleted t =
     (status t = ''Completed'' \<and>
      js_strict_neq (amount t) (Fin 0) \<and>
      \<not> str_includes (type t) ''Currency Conversion'' \<and>
      name t \<noteq> [] \<and>
      \<not> str_includes (type t) ''General Authorization'' \<and>
      \<not> str_includes (type t) ''General Card Deposit'' \<and>
      \<not> str_includes (type t) ''Bank Deposit to PP Account'')"

definition matchesMerchant :: "string list \<Rightarrow> ('d, 'z) TransactionFields_scheme \<Rightarrow> bool" where
  "matchesMerchant selected t = (''all'' \<in> set selected \<or> name t \<in> set selected)"

definition matchesDate :: "int \<Rightarrow> string \<Rightarrow> string \<Rightarrow> Date \<Rightarrow> bool" where
  "matchesDate tz start_s end_s d =
     (let m1 = (if start_s \<noteq> []
                then date_ge d (setHours tz (newDateISO start_s) 0 0 0 0) else True)
      in if end_s \<noteq> []
         then m1 \<and> date_le d (setHours tz (newDateISO end_s) 23 59 59 999) else m1)"

definition resolve :: "int \<Rightarrow> RawTransaction \<Rightarrow> Transaction" where
  "resolve tz t =
     \<lparr>date = parseDate tz (date t), name = name t, type = type t, currency = currency t,
      amount = amount t, status = status t, cumulativeAmount = Fin 0\<rparr>"

definition keeps :: "int \<Rightarrow> string list \<Rightarrow> string \<Rightarrow> string \<Rightarrow> Transaction \<Rightarrow> bool" where
  "keeps tz selected start_s end_s t =
     (isCompleted t \<and> matchesMerchant selected t \<and> matchesDate tz start_s end_s (date t))"

subsection \<open>Aggregator\<close>

definition compareFn :: "Transaction \<Rightarrow> Transaction \<Rightarrow> jsnum" where
  "compareFn a b = js_sub (getTime (date a)) (getTime (date b))"

text \<open>
  \<open>filteredTransactions\<close> is the chain \<open>.map(...).filter(...).sort(...)\<close>; \<open>selection\<close> is
  what the chain holds before the sort.
\<close>

definition selection ::
  "int \<Rightarrow> RawTransaction list \<Rightarrow> string list \<Rightarrow> string \<Rightarrow> string \<Rightarrow> Transaction list" where
  "selection tz raws selected start_s end_s =
     filter (keeps tz selected start_s end_s) (map (resolve tz) raws)"

definition filteredTransactions ::
  "int \<Rightarrow> RawTransaction list \<Rightarrow> string list \<Rightarrow> string \<Rightarrow> string \<Rightarrow> Transaction list" where
  "filteredTransactions tz raws selected start_s end_s =
     array_sort compareFn (selection tz raws selected start_s end_s)"

text \<open>The running total: each element gets the sum after its own amount is added.\<close>

fun accumulate :: "jsnum \<Rightarrow> Transaction list \<Rightarrow> Transaction list" where
  "accumulate acc [] = []"
| "accumulate acc (t # ts) =
     t\<lparr>cumulativeAmount := js_add acc (amount t)\<rparr> # accumulate (js_add acc (amount t)) ts"

definition transactions ::
  "int \<Rightarrow> RawTransaction list \<Rightarrow> string list \<Rightarrow> string \<Rightarrow> string \<Rightarrow> Transaction list" where
  "transactions tz raws selected start_s end_s =
     accumulate (Fin 0) (filteredTransactions tz raws selected start_s end_s)"





section \<open>The multi-select component\<close>

definition isAllSelected :: "string list \<Rightarrow> string list \<Rightarrow> bool" where
  "isAllSelected options selected =
     (''all'' \<in> set selected \<or> (length options > 0 \<and> length selected = length options))"

definition isSelected :: "string list \<Rightarrow> string \<Rightarrow> bool" where
  "isSelected selected option = (''all'' \<in> set selected \<or> option \<in> set selected)"

definition handleSelectAll :: "string list \<Rightarrow> string list \<Rightarrow> string list" where
  "handleSelectAll options selected = (if isAllSelected options selected then [] else [''all''])"

definition handleOptionClick :: "string list \<Rightarrow> string list \<Rightarrow> string \<Rightarrow> string list" where
  "handleOptionClick options selected option =
     (let currentSelection = (if ''all'' \<in> set selected then options else selected);
          newSelected = (if option \<in> set currentSelection
                         then filter (\<lambda>s. s \<noteq> option) currentSelection
                         else currentSelection @ [option])
      in if length newSelected = length options then [''all''] else newSelected)"

text \<open>
  The selections the component can hold: it starts from the sentinel alone, and every
  click on the "All Merchants" row or on one of the listed options emits the next one.
\<close>

inductive emits :: "string list \<Rightarrow> string list \<Rightarrow> bool" for options :: "string list" where
  initial: "emits options [''all'']"
| selectAll: "emits options selected \<Longrightarrow> emits options (handleSelectAll options selected)"
| optionClick: "emits options selected \<Longrightarrow> option \<in> set options \<Longrightarrow>
     emits options (handleOptionClick options selected option)"

section \<open>Specification vocabulary\<close>

text \<open>
  A string is parseable as an amount when, after leading white space and an optional sign,
  it starts with \<open>Infinity\<close>, with a digit, or with a point followed by a digit.
\<close>

definition hasNumericPrefix :: "string \<Rightarrow> bool" where
  "hasNumericPrefix s =
     (let u = unsign (dropWhile isWhiteSpace s)
      in startsWith u ''Infinity'' \<or>
         (u \<noteq> [] \<and> isDigit (hd u)) \<or>
         (length u \<ge> 2 \<and> hd u = CHR ''.'' \<and> isDigit (u ! 1)))"

text \<open>Exact, case-sensitive containment: \<open>n\<close> occurs in \<open>s\<close> as a contiguous block.\<close>

definition isSubstringOf :: "string \<Rightarrow> string \<Rightarrow> bool" where
  "isSubstringOf n s = (\<exists>p q. s = p @ n @ q)"

text \<open>Ascending order of the resolved dates, by the comparison \<open><=\<close> of the language.\<close>

definition ascendingByDate :: "Transaction list \<Rightarrow> bool" where
  "ascendingByDate ts = sorted_wrt (\<lambda>a b. date_le (date a) (date b)) ts"

text \<open>A transaction without its running total, as it is before the aggregation.\<close>

definition clearCumulative :: "Transaction \<Rightarrow> Transaction" where
  "clearCumulative t = t\<lparr>cumulativeAmount := Fin 0\<rparr>"


text \<open>The rows a file contributes to a batch: those \<open>processCSVFile\<close> resolves with.\<close>

definition parsedRows :: "File \<Rightarrow> RawTransaction list" where
  "parsedRows file = (case processCSVFile file of Inl e \<Rightarrow> [] | Inr rows \<Rightarrow> rows)"

section \<open>Example inputs\<close>

text \<open>A row of an export file: date, merchant, type, status and amount at their positions.\<close>

definition csvRow :: "string \<Rightarrow> string \<Rightarrow> string \<Rightarrow> string \<Rightarrow> string \<Rightarrow> string list" where
  "csvRow d who ty st amt = [d, [], [], who, ty, st, ''CAD'', amt]"

definition someRaws :: "RawTransaction list" where
  "someRaws =
     map rowToRaw
       [csvRow ''01/01/2023'' ''Alice'' ''Payment'' ''Completed'' ''100.00'',
        csvRow ''02/01/2023'' ''Bob'' ''Payment'' ''Pending'' ''5'',
        csvRow ''03/01/2023'' [] ''Payment'' ''Completed'' ''7'',
        csvRow ''04/01/2023'' ''Alice'' ''General Authorization'' ''Completed'' ''-20'']"




definition okFile :: File where
  "okFile = \<lparr>fileName = ''a.csv'', contents = PapaComplete
     [[''Date'', ''Time''], csvRow ''01/01/2023'' ''Alice'' ''Payment'' ''Completed'' ''100.00'']\<rparr>"


definition busyDashboard :: Dashboard where
  "busyDashboard =
     \<lparr>rawTransactions = someRaws, selectedMerchants = [''Bob''], viewMode = timeline,
      uploadedFiles = [''old.csv''], startDate = ''2023-01-01'', endDate = ''2023-12-31'',
      isLoading = False\<rparr>"

section \<open>Amount parsing\<close>

lemmas eval_parseFloat =
  parseAmount_def stripSeparators_def parseFloat_def isWhiteSpace_def unsign_def
  isNegative_def isDigit_def digitsVal_def digitVal_def exponentPart_def scale10_def

lemma takeWhile_Nil_iff: "takeWhile P xs = [] \<longleftrightarrow> (xs = [] \<or> \<not> P (hd xs))"
  by (cases xs) auto

lemma not_isDigit_dot: "\<not> isDigit (CHR ''.'')"
  by (simp add: isDigit_def)

lemma parseFloat_NaN_iff: "parseFloat s = NaN \<longleftrightarrow> \<not> hasNumericPrefix s"
proof -
  define u where "u = unsign (dropWhile isWhiteSpace s)"
  show ?thesis
  proof (cases "startsWith u ''Infinity''")
    case True
    then show ?thesis
      by (simp add: parseFloat_def hasNumericPrefix_def Let_def u_def)
  next
    case noInf: False
    show ?thesis
    proof (cases u)
      case Nil
      with noInf show ?thesis
        by (simp add: parseFloat_def hasNumericPrefix_def Let_def u_def)
    next
      case (Cons c r)
      show ?thesis
      proof (cases "isDigit c")
        case True
        with Cons noInf show ?thesis
          by (simp add: parseFloat_def hasNumericPrefix_def Let_def u_def[symmetric])
      next
        case False
        with Cons noInf show ?thesis
          by (cases r)
            (auto simp add: parseFloat_def hasNumericPrefix_def Let_def u_def[symmetric]
              not_isDigit_dot takeWhile_Nil_iff)
      qed
    qed
  qed
qed

text \<open>
  C3, as the code has it. The amount field is converted after every comma and every white
  space character has been taken out, so two fields that differ only in such characters
  parse alike. The empty field gives 0. A field that is not empty gives \<open>NaN\<close> exactly when
  nothing numeric is left at its start after the stripping (it does not give 0 then). The
  field \<open>1,234.56\<close> gives 1234.56.
\<close>

theorem parseAmount_strips_then_converts:
  "parseAmount [] = Fin 0
   \<and> (s \<noteq> [] \<and> s' \<noteq> [] \<and> stripSeparators s = stripSeparators s' \<longrightarrow> parseAmount s = parseAmount s')
   \<and> (\<forall>c \<in> set (stripSeparators s). c \<noteq> CHR '','' \<and> \<not> isWhiteSpace c)
   \<and> (s \<noteq> [] \<longrightarrow> (parseAmount s = NaN \<longleftrightarrow> \<not> hasNumericPrefix (stripSeparators s)))
   \<and> parseAmount ''1,234.56'' = Fin 1234.56"
proof -
  have "parseAmount ''1,234.56'' = Fin 1234.56"
    by (simp add: eval_parseFloat)
  then show ?thesis
    by (simp add: parseAmount_def parseFloat_NaN_iff) (simp add: stripSeparators_def)
qed

theorem parseAmount_strips_then_converts_witness:
  "parseAmount ''1 000'' = parseAmount ''1,000'' \<and> parseAmount ''1 000'' \<noteq> NaN
   \<and> parseAmount ''$5'' = NaN"
proof -
  have a: "stripSeparators ''1 000'' = stripSeparators ''1,000''"
    by (simp add: stripSeparators_def isWhiteSpace_def)
  have b: "hasNumericPrefix (stripSeparators ''1 000'')"
    by (simp add: stripSeparators_def isWhiteSpace_def hasNumericPrefix_def unsign_def isDigit_def)
  have c: "\<not> hasNumericPrefix (stripSeparators ''$5'')"
    by (simp add: stripSeparators_def isWhiteSpace_def hasNumericPrefix_def unsign_def isDigit_def)
  from a b parseAmount_strips_then_converts [of "''1 000''" "''1,000''"]
  have "parseAmount ''1 000'' = parseAmount ''1,000'' \<and> parseAmount ''1 000'' \<noteq> NaN"
    by blast
  moreover from c parseAmount_strips_then_converts [of "''$5''" "[]"]
  have "parseAmount ''$5'' = NaN"
    by blast
  ultimately show ?thesis by blast
qed

text \<open>C3 as stated fails: a field without a number, here \<open>n/a\<close>, does not parse to 0.\<close>

theorem parseAmount_unparseable_not_zero: "parseAmount ''n/a'' \<noteq> Fin 0"
  by (simp add: eval_parseFloat)

lemma parseAmount_blank: "parseAmount '' '' = NaN"
  by (simp add: eval_parseFloat)

section \<open>Inclusion filter\<close>

lemma startsWith_iff: "startsWith s n \<longleftrightarrow> (\<exists>q. s = n @ q)"
  by (induction s n rule: startsWith.induct) auto

lemma str_includes_iff: "str_includes s n \<longleftrightarrow> isSubstringOf n s"
proof (induction s)
  case Nil
  then show ?case by (auto simp: isSubstringOf_def)
next
  case (Cons c s)
  have "isSubstringOf n (c # s) \<longleftrightarrow> (\<exists>q. c # s = n @ q) \<or> isSubstringOf n s"
  proof
    assume "isSubstringOf n (c # s)"
    then obtain p q where pq: "c # s = p @ n @ q" by (auto simp: isSubstringOf_def)
    show "(\<exists>q. c # s = n @ q) \<or> isSubstringOf n s"
    proof (cases p)
      case Nil
      with pq show ?thesis by auto
    next
      case (Cons a p')
      with pq have "s = p' @ n @ q" by simp
      then show ?thesis by (auto simp: isSubstringOf_def)
    qed
  next
    assume "(\<exists>q. c # s = n @ q) \<or> isSubstringOf n s"
    then show "isSubstringOf n (c # s)"
    proof
      assume "\<exists>q. c # s = n @ q"
      then obtain q where "c # s = [] @ n @ q" by auto
      then show ?thesis unfolding isSubstringOf_def by blast
    next
      assume "isSubstringOf n s"
      then obtain p q where "s = p @ n @ q" by (auto simp: isSubstringOf_def)
      then have "c # s = (c # p) @ n @ q" by simp
      then show ?thesis unfolding isSubstringOf_def by blast
    qed
  qed
  with Cons show ?case by (simp add: startsWith_iff)
qed

lemma js_strict_neq_zero: "js_strict_neq x (Fin 0) \<longleftrightarrow> x \<noteq> Fin 0"
  by (auto simp: js_strict_neq_def)

lemmas eval_rows = someRaws_def csvRow_def rowToRaw_def field_def

text \<open>
  C2. A transaction, raw or with its date resolved, passes the inclusion filter if and only
  if its status is exactly \<open>Completed\<close>, its amount is not zero, its name is not empty, and
  none of the four phrases occurs in its type as an exact (case-sensitive) substring.
\<close>

theorem isCompleted_iff:
  "isCompleted t \<longleftrightarrow>
     status t = ''Completed''
     \<and> amount t \<noteq> Fin 0
     \<and> \<not> isSubstringOf ''Currency Conversion'' (type t)
     \<and> name t \<noteq> []
     \<and> \<not> isSubstringOf ''General Authorization'' (type t)
     \<and> \<not> isSubstringOf ''General Card Deposit'' (type t)
     \<and> \<not> isSubstringOf ''Bank Deposit to PP Account'' (type t)"
  by (simp add: isCompleted_def str_includes_iff js_strict_neq_zero)

theorem isCompleted_iff_witness:
  "isCompleted (rowToRaw (csvRow ''01/01/2023'' ''Alice'' ''currency conversion'' ''Completed'' ''1''))
   \<and> \<not> isSubstringOf ''Currency Conversion'' ''currency conversion''
   \<and> \<not> isCompleted (rowToRaw (csvRow ''01/01/2023'' ''Alice'' ''General Authorization'' ''Completed'' ''1''))"
proof -
  let ?a = "rowToRaw (csvRow ''01/01/2023'' ''Alice'' ''currency conversion'' ''Completed'' ''1'')"
  let ?b = "rowToRaw (csvRow ''01/01/2023'' ''Alice'' ''General Authorization'' ''Completed'' ''1'')"
  have a: "isCompleted ?a"
    by (simp add: isCompleted_def eval_rows eval_parseFloat js_strict_neq_def)
  have ta: "type ?a = ''currency conversion''"
    by (simp add: eval_rows)
  have "''General Authorization'' = [] @ ''General Authorization'' @ []"
    by simp
  then have "isSubstringOf ''General Authorization'' ''General Authorization''"
    unfolding isSubstringOf_def by blast
  then have b: "isSubstringOf ''General Authorization'' (type ?b)"
    by (simp add: eval_rows)
  from a ta b isCompleted_iff [of ?a] isCompleted_iff [of ?b] show ?thesis
    by simp
qed

section \<open>Merchant list\<close>

lemma set_foldl_set_add: "set (foldl set_add acc xs) = set acc \<union> set xs"
  by (induction xs arbitrary: acc) (auto simp: set_add_def)

lemma distinct_foldl_set_add: "distinct acc \<Longrightarrow> distinct (foldl set_add acc xs)"
  by (induction xs arbitrary: acc) (auto simp: set_add_def)

lemma set_merchants: "set (merchants raws) = {n. n \<noteq> [] \<and> n \<in> name ` set raws}"
  by (auto simp: merchants_def new_Set_def set_foldl_set_add)

lemma distinct_merchants: "distinct (merchants raws)"
  by (simp add: merchants_def new_Set_def distinct_foldl_set_add)

lemma merchantOptions_merchants: "merchantOptions raws = ''all'' # merchants raws"
  by (simp add: merchantOptions_def merchants_def)

text \<open>
  C6. The merchant list holds exactly the non-empty names that occur in the raw
  transactions, each once. It is computed from all raw transactions, whatever their status,
  type or amount: the name of every row is in it unless it is empty.
\<close>

theorem merchants_universe:
  "set (merchants raws) = {n. n \<noteq> [] \<and> (\<exists>t \<in> set raws. name t = n)}
   \<and> distinct (merchants raws)
   \<and> (\<forall>t \<in> set raws. name t \<noteq> [] \<longrightarrow> name t \<in> set (merchants raws))"
  by (auto simp: set_merchants distinct_merchants)

theorem merchants_universe_witness:
  "\<not> isCompleted (someRaws ! 1) \<and> ''Bob'' \<in> set (merchants someRaws)
   \<and> [] \<notin> set (merchants someRaws) \<and> distinct (merchants someRaws)"
proof -
  have "\<not> isCompleted (someRaws ! 1)"
    by (simp add: isCompleted_def eval_rows)
  moreover have "someRaws ! 1 \<in> set someRaws" "name (someRaws ! 1) = ''Bob''"
    by (simp_all add: eval_rows)
  ultimately show ?thesis
    using merchants_universe [of someRaws] by auto
qed

section \<open>File upload\<close>


lemma promise_all_resolves: "\<forall>p \<in> set ps. \<not> isl p \<Longrightarrow> promise_all ps = Inr (map projr ps)"
proof (induction ps)
  case Nil
  then show ?case by simp
next
  case (Cons p ps)
  then show ?case by (cases p) auto
qed

lemma parsedRows_projr: "parsedRows f = (if isl (processCSVFile f) then [] else projr (processCSVFile f))"
  by (cases "processCSVFile f") (auto simp: parsedRows_def)


lemma upload_resolved:
  assumes "files \<noteq> []" and "\<forall>f \<in> set files. \<not> isl (processCSVFile f)"
  shows "handleFileUpload s files =
     s\<lparr>rawTransactions := concat (map parsedRows files), uploadedFiles := map fileName files,
       selectedMerchants := [''all''], isLoading := False\<rparr>"
proof -
  from assms(2) have "\<forall>p \<in> set (map processCSVFile files). \<not> isl p" by auto
  then have "promise_all (map processCSVFile files) = Inr (map projr (map processCSVFile files))"
    by (rule promise_all_resolves)
  moreover from assms(2) have "map projr (map processCSVFile files) = map parsedRows files"
    by (induction files) (simp_all add: parsedRows_projr)
  ultimately have "promise_all (map processCSVFile files) = Inr (map parsedRows files)"
    by (simp only:)
  with assms(1) show ?thesis by (simp add: handleFileUpload_def)
qed



text \<open>
  C5, as the code has it. After an upload in which every file (of at least one) parses, the
  raw transactions are the rows of the new files alone, whatever was held before, and the
  merchant selection is the sentinel \<open>all\<close>; the start and end dates keep the values they
  had.
\<close>

theorem upload_replaces_and_resets_merchants:
  "files \<noteq> [] \<and> (\<forall>f \<in> set files. \<not> isl (processCSVFile f)) \<longrightarrow>
      rawTransactions (handleFileUpload s files) = concat (map parsedRows files)
      \<and> selectedMerchants (handleFileUpload s files) = [''all'']
      \<and> startDate (handleFileUpload s files) = startDate s
      \<and> endDate (handleFileUpload s files) = endDate s"
  by (simp add: upload_resolved)

theorem upload_replaces_and_resets_merchants_witness:
  "rawTransactions (handleFileUpload busyDashboard [okFile]) = parsedRows okFile
   \<and> selectedMerchants (handleFileUpload busyDashboard [okFile]) = [''all'']
   \<and> startDate (handleFileUpload busyDashboard [okFile]) = ''2023-01-01''
   \<and> endDate (handleFileUpload busyDashboard [okFile]) = ''2023-12-31''"
proof -
  have ok: "\<not> isl (processCSVFile okFile)"
    by (simp add: processCSVFile_def okFile_def)
  from ok upload_replaces_and_resets_merchants [of "[okFile]" busyDashboard]
  show ?thesis by (simp add: busyDashboard_def)
qed

text \<open>C5 as stated fails: a start date set before the upload is still set after it.\<close>

theorem upload_keeps_date_filters:
  "startDate (handleFileUpload busyDashboard [okFile]) \<noteq> []"
  by (simp add: handleFileUpload_def processCSVFile_def okFile_def busyDashboard_def)

section \<open>Sorting and running totals\<close>



















lemma clear_selection: "map clearCumulative (selection tz raws sel sd ed) = selection tz raws sel sd ed"
proof -
  have "\<forall>t \<in> set (selection tz raws sel sd ed). clearCumulative t = t"
    by (auto simp: selection_def resolve_def clearCumulative_def)
  then show ?thesis by (simp add: map_idI)
qed






lemmas eval_dates =
  parseDate_def parseInt_def part_def newDateLocal_def MakeDay_def DayFromYear_def
  daysBeforeMonth_def InLeapYear_def TimeClip_def msPerDay_def newDateISO_def daysInMonth_def

lemmas eval_view =
  transactions_def filteredTransactions_def selection_def keeps_def resolve_def
  isCompleted_def matchesMerchant_def matchesDate_def array_sort_def compareFn_def
  js_sub_def js_gt_def js_strict_neq_def date_ge_def date_le_def js_ge_def js_le_def


lemma not_includes_Payment:
  "\<not> str_includes ''Payment'' ''Currency Conversion''"
  "\<not> str_includes ''Payment'' ''General Authorization''"
  "\<not> str_includes ''Payment'' ''General Card Deposit''"
  "\<not> str_includes ''Payment'' ''Bank Deposit to PP Account''"
  by simp_all











text \<open>
  An invalid date is not \<open><=\<close> any date, nor any date \<open><=\<close> it: no arrangement of two or
  more transactions with an invalid date among them is ascending.
\<close>

lemma invalid_date_never_ascending:
  assumes "t \<in> set ts" and "date t = InvalidDate" and "2 \<le> length ts"
  shows "\<not> ascendingByDate ts"
proof
  assume asc: "ascendingByDate ts"
  from assms(1) obtain i where i: "i < length ts" "ts ! i = t"
    by (auto simp: in_set_conv_nth)
  from assms(3) i(1) obtain j where j: "j < length ts" "j \<noteq> i"
    by (cases "i = 0") (auto intro: that [of 0] that [of 1])
  have "date_le (date (ts ! i)) (date (ts ! j)) \<or> date_le (date (ts ! j)) (date (ts ! i))"
  proof (cases "i < j")
    case True
    with asc j(1) show ?thesis by (auto simp: ascendingByDate_def sorted_wrt_iff_nth_less)
  next
    case False
    with j(2) have "j < i" by simp
    with asc i(1) show ?thesis by (auto simp: ascendingByDate_def sorted_wrt_iff_nth_less)
  qed
  with i(2) assms(2) show False by (simp add: date_le_def js_le_def)
qed


section \<open>Summary statistics\<close>
















section \<open>Merchant selection\<close>

lemma name_resolve: "name (resolve tz r) = name r"
  by (simp add: resolve_def)

lemma selection_superset_all:
  assumes "set (merchants raws) \<subseteq> set sel"
  shows "selection tz raws sel sd ed = selection tz raws [''all''] sd ed"
  unfolding selection_def
proof (rule filter_cong [OF refl])
  fix t assume "t \<in> set (map (resolve tz) raws)"
  then obtain r where r: "r \<in> set raws" and t: "t = resolve tz r" by auto
  have "matchesMerchant sel t" if "isCompleted t"
  proof -
    from that have "name t \<noteq> []" by (simp add: isCompleted_def)
    with r t have "name t \<in> set (merchants raws)"
      by (auto simp: set_merchants name_resolve)
    with assms show ?thesis by (auto simp: matchesMerchant_def)
  qed
  then show "keeps tz sel sd ed t = keeps tz [''all''] sd ed t"
    by (auto simp: keeps_def matchesMerchant_def)
qed

lemma transactions_superset_all:
  "set (merchants raws) \<subseteq> set sel \<Longrightarrow>
   transactions tz raws sel sd ed = transactions tz raws [''all''] sd ed"
  by (simp add: transactions_def filteredTransactions_def selection_superset_all)

lemma emits_distinct_subset:
  assumes "distinct options" and "emits options selected"
  shows "selected = [''all''] \<or> (distinct selected \<and> set selected \<subseteq> set options)"
  using assms(2)
proof (induction rule: emits.induct)
  case initial
  then show ?case by simp
next
  case (selectAll selected)
  then show ?case by (simp add: handleSelectAll_def)
next
  case (optionClick selected option)
  define cur where "cur = (if ''all'' \<in> set selected then options else selected)"
  define new where
    "new = (if option \<in> set cur then filter (\<lambda>s. s \<noteq> option) cur else cur @ [option])"
  have cur: "distinct cur \<and> set cur \<subseteq> set options"
    using optionClick.IH assms(1) by (auto simp: cur_def)
  with optionClick.hyps(2) have new: "distinct new \<and> set new \<subseteq> set options"
    by (auto simp: new_def)
  have "handleOptionClick options selected option =
      (if length new = length options then [''all''] else new)"
    by (simp add: handleOptionClick_def cur_def new_def Let_def)
  with new show ?case by simp
qed

lemma last_option_collapses:
  assumes "distinct options" and "emits options selected" and "option \<in> set options"
    and "\<not> isSelected selected option"
    and "\<forall>p \<in> set options. p \<noteq> option \<longrightarrow> isSelected selected p"
  shows "handleOptionClick options selected option = [''all'']"
proof -
  from assms(4) have noall: "''all'' \<notin> set selected" and notin: "option \<notin> set selected"
    by (simp_all add: isSelected_def)
  from noall have "selected \<noteq> [''all'']" by auto
  with emits_distinct_subset [OF assms(1,2)]
  have d: "distinct selected" and sub: "set selected \<subseteq> set options" by auto
  from assms(5) noall have "set options - {option} \<subseteq> set selected"
    by (auto simp: isSelected_def)
  with sub notin have "set options = insert option (set selected)"
    using assms(3) by auto
  then have "card (set options) = Suc (card (set selected))"
    using notin by simp
  with d assms(1) have "length options = Suc (length selected)"
    by (simp add: distinct_card)
  with noall notin show ?thesis
    by (simp add: handleOptionClick_def)
qed

text \<open>
  C9. A selection that names exactly the merchants of the merchant list, in any order,
  keeps the same transactions, with the same running totals, as the sentinel \<open>all\<close>. In the multi-select, from any selection the
  component can hold over a duplicate-free option list, a click on the one option that is
  not selected while all others are emits the selection \<open>[all]\<close>.
\<close>

theorem all_selected_collapse:
  "(set everyone = set (merchants raws) \<longrightarrow>
      transactions tz raws everyone start_s end_s = transactions tz raws [''all''] start_s end_s)
   \<and> (distinct options \<and> emits options selected \<and> option \<in> set options
        \<and> \<not> isSelected selected option
        \<and> (\<forall>p \<in> set options. p \<noteq> option \<longrightarrow> isSelected selected p)
      \<longrightarrow> handleOptionClick options selected option = [''all''])"
  by (simp add: transactions_superset_all last_option_collapses)

text \<open>
  C10, as the code has it. Over a duplicate-free option list without the string \<open>all\<close>,
  every selection the component holds or emits is \<open>[all]\<close>, or a duplicate-free list of
  options without \<open>all\<close> that is shorter than the option list, or the empty list when
  there are no options.
\<close>

theorem emitted_selection_invariant:
  assumes "distinct options" and "''all'' \<notin> set options" and "emits options selected"
  shows "selected = [''all''] \<or>
     (distinct selected \<and> set selected \<subseteq> set options \<and> ''all'' \<notin> set selected
      \<and> (length selected < length options \<or> (options = [] \<and> selected = [])))"
  using assms(3)
proof (induction rule: emits.induct)
  case initial
  then show ?case by simp
next
  case (selectAll selected)
  then show ?case by (cases options) (simp_all add: handleSelectAll_def)
next
  case (optionClick selected option)
  from optionClick.hyps(2) assms(2) have oa: "option \<noteq> ''all''" by auto
  from optionClick.hyps(2) have ne: "options \<noteq> []" by auto
  define cur where "cur = (if ''all'' \<in> set selected then options else selected)"
  define new where
    "new = (if option \<in> set cur then filter (\<lambda>s. s \<noteq> option) cur else cur @ [option])"
  have click: "handleOptionClick options selected option =
      (if length new = length options then [''all''] else new)"
    by (simp add: handleOptionClick_def cur_def new_def Let_def)
  have cur: "distinct cur \<and> set cur \<subseteq> set options \<and> ''all'' \<notin> set cur"
    using optionClick.IH assms(1,2) by (auto simp: cur_def)
  have curlen: "length cur \<le> length options \<and> (option \<notin> set cur \<longrightarrow> length cur < length options)"
  proof (cases "''all'' \<in> set selected")
    case True
    with optionClick.hyps(2) show ?thesis by (simp add: cur_def)
  next
    case False
    with optionClick.IH ne show ?thesis by (auto simp: cur_def)
  qed
  have "length (filter (\<lambda>s. s \<noteq> option) cur) \<le> length cur"
    by simp
  moreover have "option \<in> set cur \<Longrightarrow> length (filter (\<lambda>s. s \<noteq> option) cur) < length cur"
    by (simp add: length_filter_less)
  ultimately have newlen: "length new \<le> length options"
    using curlen by (auto simp: new_def)
  from cur oa optionClick.hyps(2)
  have new: "distinct new \<and> set new \<subseteq> set options \<and> ''all'' \<notin> set new"
    by (auto simp: new_def)
  show ?case
  proof (cases "length new = length options")
    case True
    with click show ?thesis by simp
  next
    case False
    with newlen have "length new < length options" by simp
    with click False new show ?thesis by simp
  qed
qed

text \<open>
  C10 as stated fails when there are no options (every uploaded row has an empty name):
  a click on "All Merchants" emits the empty list, which is not \<open>[all]\<close> and is not
  shorter than the option list.
\<close>

theorem deselect_all_without_options:
  "emits [] (handleSelectAll [] [''all''])
   \<and> handleSelectAll [] [''all''] \<noteq> [''all'']
   \<and> \<not> length (handleSelectAll [] [''all'']) < length ([] :: string list)"
proof -
  have "emits [] (handleSelectAll [] [''all''])"
    by (rule emits.selectAll) (rule emits.initial)
  then show ?thesis by (simp add: handleSelectAll_def isAllSelected_def)
qed


lemma emits_Bob: "emits [''Alice'', ''Bob''] [''Bob'']"
proof -
  have "emits [''Alice'', ''Bob''] (handleOptionClick [''Alice'', ''Bob''] [''all''] ''Alice'')"
    by (rule emits.optionClick) (simp_all add: emits.initial)
  then show ?thesis by (simp add: handleOptionClick_def)
qed

lemma merchants_someRaws: "merchants someRaws = [''Alice'', ''Bob'']"
  by (simp add: merchants_def new_Set_def set_add_def eval_rows)

theorem all_selected_collapse_witness:
  "transactions 0 someRaws [''Alice'', ''Bob''] [] [] = transactions 0 someRaws [''all''] [] []
   \<and> handleOptionClick [''Alice'', ''Bob''] [''Bob''] ''Alice'' = [''all'']"
proof -
  have "\<not> isSelected [''Bob''] ''Alice''"
    "\<forall>p \<in> set [''Alice'', ''Bob'']. p \<noteq> ''Alice'' \<longrightarrow> isSelected [''Bob''] p"
    by (simp_all add: isSelected_def)
  with emits_Bob merchants_someRaws
    all_selected_collapse [of "[''Alice'', ''Bob'']" someRaws 0 "[]" "[]" "[''Alice'', ''Bob'']"
      "[''Bob'']" "''Alice''"]
  show ?thesis by simp
qed

theorem emitted_selection_invariant_witness:
  "distinct [''Bob''] \<and> set [''Bob''] \<subseteq> set [''Alice'', ''Bob'']
   \<and> length [''Bob''] < length [''Alice'', ''Bob'']"
proof -
  have "distinct [''Alice'', ''Bob'']" "''all'' \<notin> set [''Alice'', ''Bob'']"
    by simp_all
  from emitted_selection_invariant [OF this emits_Bob] show ?thesis
    by simp
qed

section \<open>Date range\<close>

lemma matchesDate_unbounded: "matchesDate tz [] [] d"
  by (simp add: matchesDate_def)

lemma matchesDate_start_only:
  "s \<noteq> [] \<Longrightarrow> matchesDate tz s [] d = date_ge d (setHours tz (newDateISO s) 0 0 0 0)"
  by (simp add: matchesDate_def)

lemma matchesDate_end_only:
  "e \<noteq> [] \<Longrightarrow> matchesDate tz [] e d = date_le d (setHours tz (newDateISO e) 23 59 59 999)"
  by (simp add: matchesDate_def)

lemma matchesDate_both:
  "s \<noteq> [] \<Longrightarrow> e \<noteq> [] \<Longrightarrow>
   matchesDate tz s e d =
     (date_ge d (setHours tz (newDateISO s) 0 0 0 0)
      \<and> date_le d (setHours tz (newDateISO e) 23 59 59 999))"
  by (simp add: matchesDate_def)

lemma newDateISO_utc_midnight: "newDateISO s = TimeValue t \<Longrightarrow> \<exists>k. t = k * msPerDay"
  by (auto simp: newDateISO_def TimeClip_def Let_def split: if_splits)

lemma div_day_east: "0 \<le> tz \<Longrightarrow> tz < msPerDay \<Longrightarrow> tz div msPerDay = 0"
  by simp

lemma div_day_west: "- msPerDay \<le> tz \<Longrightarrow> tz < 0 \<Longrightarrow> tz div msPerDay = - 1"
proof -
  assume a: "- msPerDay \<le> tz" "tz < 0"
  then have "(tz + msPerDay) div msPerDay = 0" by simp
  moreover have "(tz + msPerDay) div msPerDay = tz div msPerDay + 1"
    by (simp add: msPerDay_def)
  ultimately show ?thesis by simp
qed

lemma start_bound_east:
  "0 \<le> tz \<Longrightarrow> tz < msPerDay \<Longrightarrow>
   setHours tz (TimeValue (k * msPerDay)) 0 0 0 0 = TimeClip (k * msPerDay - tz)"
  by (simp add: div_day_east)

lemma start_bound_west:
  "- msPerDay \<le> tz \<Longrightarrow> tz < 0 \<Longrightarrow>
   setHours tz (TimeValue (k * msPerDay)) 0 0 0 0 = TimeClip ((k - 1) * msPerDay - tz)"
  by (simp add: div_day_west)

lemmas eval_isodate = newDateISO_def digitsVal_def digitVal_def isDigit_def daysInMonth_def
  InLeapYear_def MakeDay_def DayFromYear_def daysBeforeMonth_def TimeClip_def msPerDay_def

lemma jan15_utc: "newDateISO ''2023-01-15'' = TimeValue 1673740800000"
  by (simp add: eval_isodate)

lemma jan14_local: "parseDate (- 18000000) ''14/01/2023'' = TimeValue 1673672400000"
  by (simp add: eval_dates isWhiteSpace_def unsign_def isNegative_def isDigit_def digitsVal_def
      digitVal_def)

lemma jan15_local: "parseDate (- 18000000) ''15/01/2023'' = TimeValue 1673758800000"
  by (simp add: eval_dates isWhiteSpace_def unsign_def isNegative_def isDigit_def digitsVal_def
      digitVal_def)

text \<open>
  C7 does not hold of the code west of Greenwich. With local time five hours behind UTC and
  the start date \<open>2023-01-15\<close>, a transaction of 14 January passes the date filter, though
  it lies before the first instant of 15 January: the start date is parsed as UTC midnight,
  which is still 14 January in local time, and \<open>setHours(0, 0, 0, 0)\<close> then goes to the
  start of that local day.
\<close>

theorem start_bound_west_of_Greenwich:
  "matchesDate (- 18000000) ''2023-01-15'' [] (parseDate (- 18000000) ''14/01/2023'')
   \<and> js_lt (getTime (parseDate (- 18000000) ''14/01/2023''))
           (getTime (parseDate (- 18000000) ''15/01/2023''))"
  by (simp add: matchesDate_def jan15_utc jan14_local jan15_local date_ge_def js_ge_def js_le_def
      TimeClip_def msPerDay_def)

text \<open>In the same setting a transaction of the end date itself is filtered out.\<close>

lemma end_bound_west_of_Greenwich:
  "\<not> matchesDate (- 18000000) [] ''2023-01-15'' (parseDate (- 18000000) ''15/01/2023'')"
  by (simp add: matchesDate_def jan15_utc jan15_local date_le_def js_le_def
      TimeClip_def msPerDay_def)

text \<open>
  At and east of Greenwich the bounds are the first and the last instant of the chosen
  local days, and a transaction that passes is not before the one nor after the other.
\<close>

lemma end_bound_east:
  "0 \<le> tz \<Longrightarrow> tz < msPerDay \<Longrightarrow>
   setHours tz (TimeValue (k * msPerDay)) 23 59 59 999
     = TimeClip (k * msPerDay + 86399999 - tz)"
  by (simp add: div_day_east)

lemma end_bound_west:
  "- msPerDay \<le> tz \<Longrightarrow> tz < 0 \<Longrightarrow>
   setHours tz (TimeValue (k * msPerDay)) 23 59 59 999
     = TimeClip ((k - 1) * msPerDay + 86399999 - tz)"
  by (simp add: div_day_west)

lemma start_bound_respected_east:
  assumes "0 \<le> tz" and "tz < msPerDay" and "s \<noteq> []"
    and "newDateISO s = TimeValue (k * msPerDay)"
    and "matchesDate tz s e d"
  shows "\<not> js_lt (getTime d) (Fin (of_int (k * msPerDay - tz)))"
proof -
  from assms(3,5) have ge: "date_ge d (setHours tz (newDateISO s) 0 0 0 0)"
    by (auto simp: matchesDate_def Let_def split: if_splits)
  have "setHours tz (newDateISO s) 0 0 0 0 = TimeClip (k * msPerDay - tz)"
    using assms(1,2,4) by (simp add: start_bound_east)
  with ge show ?thesis
    by (cases d) (auto simp: date_ge_def js_ge_def js_le_def TimeClip_def split: if_splits)
qed

lemma end_bound_respected_east:
  assumes "0 \<le> tz" and "tz < msPerDay" and "e \<noteq> []"
    and "newDateISO e = TimeValue (k * msPerDay)"
    and "matchesDate tz s e d"
  shows "\<not> js_lt (Fin (of_int (k * msPerDay + 86399999 - tz))) (getTime d)"
proof -
  from assms(3,5) have le: "date_le d (setHours tz (newDateISO e) 23 59 59 999)"
    by (auto simp: matchesDate_def Let_def split: if_splits)
  have "setHours tz (newDateISO e) 23 59 59 999 = TimeClip (k * msPerDay + 86399999 - tz)"
    using assms(1,2,4) by (simp only: end_bound_east)
  with le show ?thesis
    by (cases d) (auto simp: date_le_def js_le_def TimeClip_def split: if_splits)
qed

end
